theory Spec2Isabelle
  imports Complex_Main "HOL-Library.Sublist"
begin

section \<open>JavaScript values of the model\<close>

text \<open>
  The library (\<^verbatim>\<open>src/index.mjs\<close>) works on strings and numbers.  Strings are
  lists of characters.  Numbers are modelled in exact arithmetic as rationals: every
  finite IEEE double is a rational, and sums, products and comparisons are taken
  exactly, so the rounding of doubles is outside the model.  \<open>Undefined\<close> is the
  content of an array slot that was never written, \<open>Null\<close> the initial value of
  \<^verbatim>\<open>refValue\<close> in the back-reference loops.
\<close>

datatype jsval = Undefined | Null | Str string | Num rat

definition digit_char :: "nat \<Rightarrow> char" where
  "digit_char d = char_of (48 + d)"

text \<open>Decimal digits of a natural number, most significant first.\<close>

function nat_to_string :: "nat \<Rightarrow> string" where
  "nat_to_string n =
     (if n < 10 then [digit_char n] else nat_to_string (n div 10) @ [digit_char (n mod 10)])"
  by pat_completeness auto
termination
  by (relation "measure (\<lambda>n. n)") auto

text \<open>
  The digits after the decimal point of a fraction \<open>0 \<le> f < 1\<close>, by long division,
  at most \<open>fuel\<close> of them.
\<close>

fun fraction_digits :: "nat \<Rightarrow> rat \<Rightarrow> string" where
  "fraction_digits 0 f = []"
| "fraction_digits (Suc fuel) f =
     (if f = 0 then []
      else digit_char (nat \<lfloor>f * 10\<rfloor>) # fraction_digits fuel (f * 10 - of_int \<lfloor>f * 10\<rfloor>))"

text \<open>
  \<^verbatim>\<open>Number.prototype.toString\<close>: an integer prints as its decimal digits with
  a leading minus sign when negative (as JavaScript does below \<open>10\<^sup>2\<^sup>1\<close>); any other
  number prints as its exact decimal expansion, cut after 20 fractional digits
  (JavaScript prints the shortest decimal that reads back as the same double, which is
  this text whenever the exact expansion is that short).
\<close>

definition number_to_string :: "rat \<Rightarrow> string" where
  "number_to_string q =
     (let a = \<bar>q\<bar>;
          whole = nat_to_string (nat \<lfloor>a\<rfloor>);
          frac = a - of_int \<lfloor>a\<rfloor>
      in (if q < 0 then ''-'' else '''') @ whole @
         (if frac = 0 then '''' else ''.'' @ fraction_digits 20 frac))"

text \<open>\<^verbatim>\<open>ToString\<close>, as applied by \<^verbatim>\<open>+\<close> with a string operand and by template literals.\<close>

fun to_string :: "jsval \<Rightarrow> string" where
  "to_string Undefined = ''undefined''"
| "to_string Null = ''null''"
| "to_string (Str s) = s"
| "to_string (Num q) = number_to_string q"

text \<open>Reading an array element: \<^verbatim>\<open>xs[i]\<close> is \<^verbatim>\<open>undefined\<close> out of range.\<close>

definition js_nth :: "jsval list \<Rightarrow> int \<Rightarrow> jsval" where
  "js_nth xs i = (if 0 \<le> i \<and> i < int (length xs) then xs ! nat i else Undefined)"


section \<open>Generators\<close>

text \<open>
  The three kinds of value source that \<^verbatim>\<open>cartesianProduct\<close> receives: a
  \<^verbatim>\<open>RangeGenerator\<close> (start, end, step, includeEnd), the only subclass of
  \<^verbatim>\<open>Generator\<close> a caller can construct (through \<^verbatim>\<open>range\<close>); a plain array, whose
  \<^verbatim>\<open>values()\<close> is the array iterator; and a \<^verbatim>\<open>StaticGenerator\<close>.
\<close>

datatype generator =
    RangeGenerator rat rat rat bool
  | Array "jsval list"
  | StaticGenerator jsval

text \<open>
  The loop \<^verbatim>\<open>for (let i = this.start; i <= this.end; i += this.step) yield i\<close>.
  With a step that is not positive it never ends when \<open>start \<le> end\<close>: not returning
  is the value \<open>None\<close>.
\<close>

partial_function (option) range_loop :: "rat \<Rightarrow> rat \<Rightarrow> rat \<Rightarrow> jsval list option" where
  "range_loop i end' step =
     (if i \<le> end'
      then Option.bind (range_loop (i + step) end' step) (\<lambda>rest. Some (Num i # rest))
      else Some [])"

declare range_loop.simps [code]

text \<open>
  The remainder operator \<^verbatim>\<open>%\<close>: the quotient is truncated towards zero.  For a zero
  divisor JavaScript gives \<^verbatim>\<open>NaN\<close>, which \<open>values\<close> below treats apart.
\<close>

definition js_rem :: "rat \<Rightarrow> rat \<Rightarrow> rat" where
  "js_rem a b = a - b * of_int (if 0 \<le> a / b then \<lfloor>a / b\<rfloor> else \<lceil>a / b\<rceil>)"

text \<open>
  The test after the loop of \<^verbatim>\<open>RangeGenerator.values\<close>.  With \<open>step = 0\<close> the
  remainder is \<^verbatim>\<open>NaN\<close>, the product \<^verbatim>\<open>Math.floor(...) * step\<close> is \<^verbatim>\<open>NaN\<close> too,
  and \<^verbatim>\<open>end > NaN\<close> is false.
\<close>

definition range_extra :: "rat \<Rightarrow> rat \<Rightarrow> rat \<Rightarrow> bool \<Rightarrow> bool" where
  "range_extra start end' step includeEnd \<longleftrightarrow>
     includeEnd \<and> step \<noteq> 0 \<and>
     js_rem (end' - start) step \<noteq> 0 \<and>
     end' > start + of_int \<lfloor>(end' - start) / step\<rfloor> * step"

fun values_of :: "generator \<Rightarrow> jsval list option" where
  "values_of (RangeGenerator start end' step includeEnd) =
     Option.bind (range_loop start end' step)
       (\<lambda>regular. Some (regular @ (if range_extra start end' step includeEnd then [Num end'] else [])))"
| "values_of (Array options) = Some options"
| "values_of (StaticGenerator v) = Some [v]"

text \<open>
  \<^verbatim>\<open>range(start, end, step = 1, includeEnd = true)\<close>.  (The name \<open>range\<close> is taken by
  the image of a function.)
\<close>

definition range_gen :: "rat \<Rightarrow> rat \<Rightarrow> rat \<Rightarrow> bool \<Rightarrow> generator" where
  "range_gen start end' step includeEnd = RangeGenerator start end' step includeEnd"



section \<open>Strings\<close>

text \<open>
  Characters are 8-bit code units.  \<open>is_space\<close> is the class \<^verbatim>\<open>\s\<close> of regular
  expressions, which is also what \<^verbatim>\<open>trim\<close>, \<^verbatim>\<open>parseFloat\<close> and \<^verbatim>\<open>Number\<close> strip:
  tab, line feed, vertical tab, form feed, carriage return, space and no-break space.
\<close>

definition is_space :: "char \<Rightarrow> bool" where
  "is_space c \<longleftrightarrow>
     c \<in> {CHR 0x09, CHR 0x0A, CHR 0x0B, CHR 0x0C, CHR 0x0D, CHR 0x20, CHR 0xA0}"

definition is_digit :: "char \<Rightarrow> bool" where
  "is_digit c \<longleftrightarrow> c \<in> set ''0123456789''"

definition trim :: "string \<Rightarrow> string" where
  "trim s = rev (dropWhile is_space (rev (dropWhile is_space s)))"

text \<open>
  \<^verbatim>\<open>s.split(separator)\<close> for a one-character separator: the pieces between the
  occurrences of the separator, one more than there are occurrences.
\<close>

fun split_loop :: "char \<Rightarrow> string \<Rightarrow> string \<Rightarrow> string list" where
  "split_loop separator piece [] = [piece]"
| "split_loop separator piece (c # cs) =
     (if c = separator then piece # split_loop separator [] cs
      else split_loop separator (piece @ [c]) cs)"

definition split :: "string \<Rightarrow> char \<Rightarrow> string list" where
  "split s separator = split_loop separator [] s"

text \<open>The value of a string of digits in a base, as \<^verbatim>\<open>parseInt(digits, 10)\<close> for base 10.\<close>

definition digit_value :: "char \<Rightarrow> nat" where
  "digit_value c =
     (if is_digit c then of_char c - 48
      else if c \<in> set ''abcdef'' then of_char c - 87
      else of_char c - 55)"

definition digits_value :: "nat \<Rightarrow> string \<Rightarrow> nat" where
  "digits_value base ds = foldl (\<lambda>n c. n * base + digit_value c) 0 ds"

definition parseInt :: "string \<Rightarrow> nat" where
  "parseInt ds = digits_value 10 ds"


section \<open>Numeric literals: \<^verbatim>\<open>parseFloat\<close> and \<^verbatim>\<open>Number\<close>\<close>

text \<open>
  The result of reading a string as a number: \<^verbatim>\<open>NaN\<close>, an infinity, or a finite
  number.  A literal whose exact value is not below \<open>2\<^sup>1\<^sup>0\<^sup>2\<^sup>4 - 2\<^sup>9\<^sup>7\<^sup>0\<close> in magnitude
  rounds to an infinity; any other literal is taken at its exact value.
\<close>

datatype number = NaN | PosInfinity | NegInfinity | Finite rat

definition isNaN :: "number \<Rightarrow> bool" where
  "isNaN n \<longleftrightarrow> n = NaN"

definition isFinite :: "number \<Rightarrow> bool" where
  "isFinite n \<longleftrightarrow> (case n of Finite q \<Rightarrow> True | _ \<Rightarrow> False)"

definition to_number :: "rat \<Rightarrow> number" where
  "to_number v =
     (if \<bar>v\<bar> < 2 ^ 1024 - 2 ^ 970 then Finite v
      else if v < 0 then NegInfinity else PosInfinity)"

text \<open>
  For evaluation: a number below \<open>2\<^sup>1\<^sup>6\<close> in magnitude is decided without computing the
  bound.
\<close>

lemma to_number_code [code]:
  "to_number v =
     (if \<bar>v\<bar> < 65536 then Finite v
      else if \<bar>v\<bar> < 2 ^ 1024 - 2 ^ 970 then Finite v
      else if v < 0 then NegInfinity else PosInfinity)"
proof -
  have "(65536 :: rat) < 2 ^ 1024 - 2 ^ 970" by simp
  then have "\<bar>v\<bar> < 65536 \<Longrightarrow> \<bar>v\<bar> < 2 ^ 1024 - 2 ^ 970" by (rule less_trans [rotated])
  then show ?thesis by (auto simp: to_number_def)
qed

definition scale10 :: "rat \<Rightarrow> int \<Rightarrow> rat" where
  "scale10 v e = (if 0 \<le> e then v * 10 ^ nat e else v / 10 ^ nat (- e))"

definition strip_sign :: "string \<Rightarrow> bool \<times> string" where
  "strip_sign s =
     (case s of
        [] \<Rightarrow> (False, s)
      | c # r \<Rightarrow> if c = CHR ''-'' then (True, r) else if c = CHR ''+'' then (False, r) else (False, s))"

text \<open>
  The \<^verbatim>\<open>ExponentPart\<close> of the grammar at the head of a string: \<^verbatim>\<open>e\<close> or \<^verbatim>\<open>E\<close>, an
  optional sign, one or more digits.  Where there is none the exponent is 0 and
  nothing is consumed.
\<close>

definition scan_exponent :: "string \<Rightarrow> int \<times> string" where
  "scan_exponent s =
     (case s of
        [] \<Rightarrow> (0, s)
      | c # r \<Rightarrow>
          if c = CHR ''e'' \<or> c = CHR ''E''
          then (let (neg, r') = strip_sign r; ds = takeWhile is_digit r'
                in if ds = [] then (0, s)
                   else (if neg then - int (digits_value 10 ds) else int (digits_value 10 ds),
                         dropWhile is_digit r'))
          else (0, s))"

text \<open>
  The longest prefix that is a \<^verbatim>\<open>StrUnsignedDecimalLiteral\<close> other than
  \<^verbatim>\<open>Infinity\<close> (digits with an optional fraction, or a fraction alone, and an optional
  exponent): its value and the rest of the string.
\<close>

definition scan_decimal :: "string \<Rightarrow> (rat \<times> string) option" where
  "scan_decimal s =
     (let ip = takeWhile is_digit s; r1 = dropWhile is_digit s
      in if ip \<noteq> [] then
           (case r1 of
              [] \<Rightarrow> Some (of_nat (digits_value 10 ip), [])
            | c # r2 \<Rightarrow>
                if c = CHR ''.''
                then (let fp = takeWhile is_digit r2;
                          (e, r4) = scan_exponent (dropWhile is_digit r2)
                      in Some (scale10 (of_nat (digits_value 10 ip)
                                 + of_nat (digits_value 10 fp) / 10 ^ length fp) e, r4))
                else (let (e, r4) = scan_exponent r1
                      in Some (scale10 (of_nat (digits_value 10 ip)) e, r4)))
         else
           (case s of
              [] \<Rightarrow> None
            | c # r2 \<Rightarrow>
                if c = CHR ''.'' \<and> takeWhile is_digit r2 \<noteq> []
                then (let fp = takeWhile is_digit r2;
                          (e, r4) = scan_exponent (dropWhile is_digit r2)
                      in Some (scale10 (of_nat (digits_value 10 fp) / 10 ^ length fp) e, r4))
                else None))"

text \<open>
  \<^verbatim>\<open>parseFloat\<close>: leading white space is skipped, and the longest prefix that is a
  signed decimal literal is read; \<^verbatim>\<open>NaN\<close> when no prefix is one.
\<close>

definition parseFloat :: "string \<Rightarrow> number" where
  "parseFloat s =
     (let (neg, u) = strip_sign (dropWhile is_space s)
      in if prefix ''Infinity'' u then (if neg then NegInfinity else PosInfinity)
         else (case scan_decimal u of
                 None \<Rightarrow> NaN
               | Some (v, r) \<Rightarrow> to_number (if neg then - v else v)))"

text \<open>
  The unsigned literals \<^verbatim>\<open>0x\<close>, \<^verbatim>\<open>0o\<close> and \<^verbatim>\<open>0b\<close> that \<^verbatim>\<open>Number\<close> accepts besides
  decimal ones.
\<close>

definition non_decimal_literal :: "string \<Rightarrow> nat option" where
  "non_decimal_literal s =
     (case s of
        z # x # ds \<Rightarrow>
          if z = CHR ''0'' \<and> ds \<noteq> [] then
            (if x \<in> set ''xX'' \<and> list_all (\<lambda>c. c \<in> set ''0123456789abcdefABCDEF'') ds
               then Some (digits_value 16 ds)
             else if x \<in> set ''oO'' \<and> list_all (\<lambda>c. c \<in> set ''01234567'') ds
               then Some (digits_value 8 ds)
             else if x \<in> set ''bB'' \<and> list_all (\<lambda>c. c \<in> set ''01'') ds
               then Some (digits_value 2 ds)
             else None)
          else None
      | _ \<Rightarrow> None)"

text \<open>
  \<^verbatim>\<open>Number(s)\<close> on a string: white space is trimmed on both sides, the empty string
  is 0, and the whole of what is left has to be a numeric literal.
\<close>

definition Number :: "string \<Rightarrow> number" where
  "Number s =
     (let t = trim s
      in if t = [] then Finite 0
         else (case non_decimal_literal t of
                 Some n \<Rightarrow> to_number (of_nat n)
               | None \<Rightarrow>
                   (let (neg, u) = strip_sign t
                    in if u = ''Infinity'' then (if neg then NegInfinity else PosInfinity)
                       else (case scan_decimal u of
                               Some (v, []) \<Rightarrow> to_number (if neg then - v else v)
                             | _ \<Rightarrow> NaN))))"


section \<open>Configuration\<close>

text \<open>
  The options object of \<^verbatim>\<open>parse\<close>, \<^verbatim>\<open>count\<close> and \<^verbatim>\<open>choose\<close>.  The delimiters are
  strings; the two separators and the back-reference marker are single characters.

  The code builds regular expressions from these options by pasting them into the
  pattern text.  The model reads every delimiter character as itself and reads
  \<^verbatim>\<open>\\<close> followed by the marker or the range separator as that character, which is
  what the regular expression does when no delimiter character is one of
  \<^verbatim>\<open>^ $ \ . * + ? ( ) [ ] | -\<close>, the end delimiter is not empty, and neither the
  marker nor the range separator is a letter or a digit.
\<close>

record config =
  patternStart :: string
  patternEnd :: string
  separatorRange :: char
  separatorChoices :: char
  backReferenceMarker :: char

definition default_config :: config where
  "default_config =
     \<lparr>patternStart = ''{'', patternEnd = ''}'', separatorRange = CHR '','',
      separatorChoices = CHR ''|'', backReferenceMarker = CHR ''$''\<rparr>"


section \<open>The tokenizer: \<^verbatim>\<open>subHelper\<close>\<close>

text \<open>
  A match of \<^verbatim>\<open>patternStart([^patternEnd]+)patternEnd\<close> at the head of a string: the
  start delimiter, the longest run of one or more characters that are not characters
  of the end delimiter, then the end delimiter.  The result is the captured content
  and the text after the match.  (Giving back characters of the run cannot help the
  match: the end delimiter does not begin with a character of the run.)
\<close>

definition match_at :: "string \<Rightarrow> string \<Rightarrow> string \<Rightarrow> (string \<times> string) option" where
  "match_at pStart pEnd s =
     (if prefix pStart s then
        (let rest = drop (length pStart) s;
             content = takeWhile (\<lambda>c. c \<notin> set pEnd) rest;
             after = dropWhile (\<lambda>c. c \<notin> set pEnd) rest
         in if content \<noteq> [] \<and> prefix pEnd after
            then Some (content, drop (length pEnd) after)
            else None)
      else None)"

text \<open>A match is not empty: the search that goes on after it has less text left.\<close>

lemma match_at_shorter:
  assumes "match_at pStart pEnd s = Some (content, rest)"
  shows "length rest < length s"
proof -
  let ?run = "takeWhile (\<lambda>c. c \<notin> set pEnd) (drop (length pStart) s)"
  let ?after = "dropWhile (\<lambda>c. c \<notin> set pEnd) (drop (length pStart) s)"
  have "length ?after + length ?run = length (drop (length pStart) s)"
    by (metis add.commute length_append takeWhile_dropWhile_id)
  moreover have "?run \<noteq> []" and "rest = drop (length pEnd) ?after"
    using assms by (auto simp: match_at_def Let_def split: if_splits)
  ultimately show ?thesis by (cases ?run) auto
qed

text \<open>
  The loop \<^verbatim>\<open>while ((match = patternRegex.exec(template)) !== null)\<close>: the search
  goes on from the end of the last match, and the text passed over on the way to the
  next match is the literal segment before it.
\<close>

function subHelper_loop ::
  "string \<Rightarrow> string \<Rightarrow> string \<Rightarrow> string \<Rightarrow> string list \<times> string list" where
  "subHelper_loop pStart pEnd literal s =
     (case s of
        [] \<Rightarrow> ([], [literal])
      | c # cs \<Rightarrow>
          (case match_at pStart pEnd s of
             Some (content, rest) \<Rightarrow>
               (let (patterns, stringParts) = subHelper_loop pStart pEnd [] rest
                in (content # patterns, literal # stringParts))
           | None \<Rightarrow> subHelper_loop pStart pEnd (literal @ [c]) cs))"
  by pat_completeness auto
termination
  by (relation "measure (\<lambda>(pStart, pEnd, literal, s). length s)")
    (auto dest: match_at_shorter)

declare subHelper_loop.simps [simp del]

definition subHelper :: "string \<Rightarrow> config \<Rightarrow> string list \<times> string list" where
  "subHelper template cfg = subHelper_loop (patternStart cfg) (patternEnd cfg) [] template"

section \<open>Classifying a placeholder\<close>

text \<open>
  \<^verbatim>\<open>pattern.match(backReferenceRegex)\<close> with the expression \<^verbatim>\<open>\$(\d+)\<close>: the first
  place where the marker is followed by a digit.  The result is the matched text
  (\<^verbatim>\<open>backRefMatch[0]\<close>: the marker and all the digits after it) and the digits
  (\<^verbatim>\<open>backRefMatch[1]\<close>).
\<close>

fun backReferenceRegex_match :: "char \<Rightarrow> string \<Rightarrow> (string \<times> string) option" where
  "backReferenceRegex_match marker [] = None"
| "backReferenceRegex_match marker (c # cs) =
     (if c = marker \<and> takeWhile is_digit cs \<noteq> []
      then Some (c # takeWhile is_digit cs, takeWhile is_digit cs)
      else backReferenceRegex_match marker cs)"

text \<open>
  The first pass of \<^verbatim>\<open>parse\<close>, \<^verbatim>\<open>count\<close> and \<^verbatim>\<open>choose\<close> on one pattern: the entry
  pushed on \<^verbatim>\<open>backReferences\<close>, the index for a back-reference and \<^verbatim>\<open>null\<close>
  (\<open>None\<close>) for any other pattern.  The test is
  \<^verbatim>\<open>backRefMatch && backRefMatch[0] === pattern && pattern.trim() === backRefMatch[0]\<close>.
\<close>

definition back_reference :: "char \<Rightarrow> string \<Rightarrow> nat option" where
  "back_reference marker pattern =
     (case backReferenceRegex_match marker pattern of
        None \<Rightarrow> None
      | Some (m0, m1) \<Rightarrow>
          if m0 = pattern \<and> trim pattern = m0 then Some (parseInt m1) else None)"

text \<open>The entry pushed on \<^verbatim>\<open>generatorPatterns\<close>: \<^verbatim>\<open>null\<close> for a back-reference.\<close>

definition generator_pattern :: "char \<Rightarrow> string \<Rightarrow> string option" where
  "generator_pattern marker pattern =
     (if back_reference marker pattern \<noteq> None then None else Some pattern)"

text \<open>
  \<^verbatim>\<open>isRangePattern\<close>.  \<^verbatim>\<open>pattern.replace(/\s+/g, "")\<close> deletes every white-space
  character; replacing the match of \<^verbatim>\<open>\,+$\<close> by the empty string deletes the run
  of separators at the end.
\<close>

definition valid_number :: "string \<Rightarrow> bool" where
  "valid_number part \<longleftrightarrow>
     (if part = [] then False else \<not> isNaN (parseFloat part) \<and> isFinite (Number part))"

definition trimmed_pattern :: "string \<Rightarrow> char \<Rightarrow> string" where
  "trimmed_pattern pattern separator =
     (let noWhitespace = filter (\<lambda>c. \<not> is_space c) pattern
      in rev (dropWhile (\<lambda>c. c = separator) (rev noWhitespace)))"

definition isRangePattern :: "string \<Rightarrow> char \<Rightarrow> bool" where
  "isRangePattern pattern separator =
     (let trimmedPattern = trimmed_pattern pattern separator
      in if separator \<notin> set trimmedPattern then False
         else (let parts = split trimmedPattern separator
               in if length parts < 2 \<or> length parts > 3 then False
                  else list_all valid_number parts))"

text \<open>
  \<^verbatim>\<open>parseRangePattern\<close>: start, end and step (1 when there are two parts) as read by
  \<^verbatim>\<open>parseFloat\<close>.  It is only called on a pattern that \<^verbatim>\<open>isRangePattern\<close> accepts,
  where every part reads as a finite number; on any other pattern a part is
  \<^verbatim>\<open>NaN\<close>, an infinity or missing, which \<open>RangeGenerator\<close> does not represent, and the
  result is \<open>None\<close>.
\<close>

definition parseRangePattern :: "string \<Rightarrow> char \<Rightarrow> (rat \<times> rat \<times> rat) option" where
  "parseRangePattern pattern separator =
     (let trimmedPattern = trimmed_pattern pattern separator;
          parts = map parseFloat (split trimmedPattern separator)
      in (case parts of
            Finite start # Finite end' # rest \<Rightarrow>
              (case rest of
                 [] \<Rightarrow> Some (start, end', 1)
               | Finite step # _ \<Rightarrow> Some (start, end', step)
               | _ \<Rightarrow> None)
          | _ \<Rightarrow> None))"

text \<open>\<^verbatim>\<open>parseChoicesPattern\<close>, and the \<^verbatim>\<open>pattern.split(separatorChoices)\<close> of the callers.\<close>

definition parseChoicesPattern :: "string \<Rightarrow> char \<Rightarrow> jsval list" where
  "parseChoicesPattern pattern separator = map Str (split pattern separator)"


section \<open>The cartesian product\<close>

text \<open>
  \<^verbatim>\<open>generateCombinations(index, current)\<close>: \<^verbatim>\<open>current[index] = value\<close> for each
  value at this position in turn, with all the combinations of the later positions
  after each.  The array \<^verbatim>\<open>current\<close> is copied when a combination is yielded, so the
  model passes the updated array on.  The only call from outside starts at index 0; an
  index beyond the length is never reached.
\<close>

function generateCombinations ::
  "jsval list list \<Rightarrow> nat \<Rightarrow> jsval list \<Rightarrow> jsval list list" where
  "generateCombinations allValues index current =
     (if index = length allValues then [current]
      else if length allValues < index then []
      else concat (map (\<lambda>value. generateCombinations allValues (index + 1)
                                  (current[index := value]))
                       (allValues ! index)))"
  by pat_completeness auto
termination
  by (relation "measure (\<lambda>(allValues, index, current). length allValues - index)") auto

text \<open>
  \<^verbatim>\<open>cartesianProduct\<close>, with all its combinations collected in order.  The result is
  \<open>None\<close> when a generator never stops yielding.
\<close>

definition cartesianProduct :: "generator list \<Rightarrow> jsval list list option" where
  "cartesianProduct generators =
     (if length generators = 0 then Some [[]]
      else if length generators = 1
        then map_option (map (\<lambda>value. [value])) (values_of (generators ! 0))
      else (case those (map values_of generators) of
              None \<Rightarrow> None
            | Some allValues \<Rightarrow>
                Some (generateCombinations allValues 0
                        (replicate (length allValues) Undefined))))"


section \<open>Building the output string\<close>

text \<open>
  The loop \<^verbatim>\<open>result += combination[i] + strings[i + 1]\<close>.  Where \<^verbatim>\<open>strings\<close> has
  run out, \<^verbatim>\<open>strings[i + 1]\<close> is \<^verbatim>\<open>undefined\<close>: added to a string it is the text
  \<^verbatim>\<open>undefined\<close>, added to anything else the sum is \<^verbatim>\<open>NaN\<close>.
\<close>

fun build_result :: "string \<Rightarrow> jsval list \<Rightarrow> string list \<Rightarrow> string" where
  "build_result result [] strings = result"
| "build_result result (v # combination) (s # strings) =
     build_result (result @ to_string v @ s) combination strings"
| "build_result result (v # combination) [] =
     build_result (result @ (case v of Str x \<Rightarrow> x @ ''undefined'' | _ \<Rightarrow> ''NaN''))
       combination []"

text \<open>
  \<^verbatim>\<open>let result = strings[0]\<close> and the loop.  A template tag always receives at least
  one string, and \<^verbatim>\<open>subHelper\<close> always returns at least one; for an empty array the
  first summand would be \<^verbatim>\<open>undefined\<close>.
\<close>

definition assemble :: "string list \<Rightarrow> jsval list \<Rightarrow> string" where
  "assemble strings combination =
     (case strings of
        [] \<Rightarrow> build_result ''undefined'' combination []
      | s # rest \<Rightarrow> build_result s combination rest)"


section \<open>\<^verbatim>\<open>compile\<close>\<close>

text \<open>
  An interpolated expression of the tagged template: a generator made by
  \<^verbatim>\<open>range\<close>, an array, or any other value.
\<close>

datatype expression =
    GeneratorExpr rat rat rat bool
  | ArrayExpr "jsval list"
  | ValueExpr jsval

fun to_generator :: "expression \<Rightarrow> generator" where
  "to_generator (GeneratorExpr start end' step includeEnd) = range_gen start end' step includeEnd"
| "to_generator (ArrayExpr xs) = Array xs"
| "to_generator (ValueExpr v) = StaticGenerator v"

definition compile :: "string list \<Rightarrow> expression list \<Rightarrow> string list option" where
  "compile strings expressions =
     (let generators = map to_generator expressions
      in map_option (map (assemble strings)) (cartesianProduct generators))"


section \<open>\<^verbatim>\<open>parse\<close>\<close>

text \<open>
  The generator of one entry of \<^verbatim>\<open>generatorPatterns\<close>.  \<^verbatim>\<open>!pattern\<close> holds for
  \<^verbatim>\<open>null\<close> and for the empty string.
\<close>

definition pattern_generator :: "config \<Rightarrow> string option \<Rightarrow> generator option" where
  "pattern_generator cfg pattern =
     (case pattern of
        None \<Rightarrow> Some (StaticGenerator (Str []))
      | Some p \<Rightarrow>
          if p = [] then Some (StaticGenerator (Str []))
          else if isRangePattern p (separatorRange cfg)
            then (case parseRangePattern p (separatorRange cfg) of
                    None \<Rightarrow> None
                  | Some (start, end', step) \<Rightarrow> Some (range_gen start end' step True))
          else Some (Array (parseChoicesPattern p (separatorChoices cfg))))"

text \<open>
  The inner loop that looks for the value a back-reference refers to, over the
  positions \<open>js\<close> in order: the \<open>refIndex\<close>-th position that is not a back-reference,
  \<^verbatim>\<open>null\<close> when the positions run out first.
\<close>

fun find_reference ::
  "nat option list \<Rightarrow> jsval list \<Rightarrow> nat \<Rightarrow> nat list \<Rightarrow> nat \<Rightarrow> jsval" where
  "find_reference backReferences resolved refIndex [] seen = Null"
| "find_reference backReferences resolved refIndex (j # js) seen =
     (if backReferences ! j = None
      then (if seen = refIndex then resolved ! j
            else find_reference backReferences resolved refIndex js (seen + 1))
      else find_reference backReferences resolved refIndex js seen)"

text \<open>The text that stands for a back-reference that was not found.\<close>

definition invalid_reference :: "config \<Rightarrow> nat \<Rightarrow> jsval" where
  "invalid_reference cfg refIndex =
     Str (''{'' @ [backReferenceMarker cfg] @ nat_to_string refIndex @ ''}'')"

text \<open>
  One step of the loop of \<^verbatim>\<open>parse\<close> that resolves the back-references: position \<open>i\<close>
  looks among the positions before it.
\<close>

definition resolve_step :: "config \<Rightarrow> nat option list \<Rightarrow> nat \<Rightarrow> jsval list \<Rightarrow> jsval list" where
  "resolve_step cfg backReferences i resolved =
     (case backReferences ! i of
        None \<Rightarrow> resolved
      | Some refIndex \<Rightarrow>
          (let refValue = find_reference backReferences resolved refIndex [0 ..< i] 0
           in resolved[i := (if refValue \<noteq> Null then refValue
                             else invalid_reference cfg refIndex)]))"

text \<open>
  The body of the loop over the combinations: the actual choices go to their original
  positions, then the back-references are resolved from left to right.
\<close>

definition resolve_combination ::
  "config \<Rightarrow> nat option list \<Rightarrow> nat list \<Rightarrow> jsval list \<Rightarrow> jsval list" where
  "resolve_combination cfg backReferences actualChoiceIndices actualCombination =
     (let n = length backReferences;
          placed = fold (\<lambda>i resolved. resolved[actualChoiceIndices ! i := actualCombination ! i])
                     [0 ..< length actualCombination] (replicate n Undefined)
      in fold (resolve_step cfg backReferences) [0 ..< n] placed)"

text \<open>
  All the resolved combinations of a template, in the order of the iteration, with the
  literal segments: \<open>None\<close> when the iteration never ends.
\<close>

definition parse_combinations :: "string \<Rightarrow> config \<Rightarrow> (string list \<times> jsval list list) option" where
  "parse_combinations template cfg =
     (let (patterns, stringParts) = subHelper template cfg;
          backReferences = map (back_reference (backReferenceMarker cfg)) patterns;
          generatorPatterns = map (generator_pattern (backReferenceMarker cfg)) patterns;
          generators = map (pattern_generator cfg) generatorPatterns;
          actualChoiceIndices =
            filter (\<lambda>i. backReferences ! i = None) [0 ..< length generatorPatterns];
          actualChoicePatterns = map (\<lambda>i. generators ! i) actualChoiceIndices
      in (case those actualChoicePatterns of
            None \<Rightarrow> None
          | Some actual \<Rightarrow>
              map_option
                (\<lambda>combinations.
                   (stringParts,
                    map (resolve_combination cfg backReferences actualChoiceIndices) combinations))
                (cartesianProduct actual)))"

text \<open>\<^verbatim>\<open>[...parse(template, config)]\<close>: every string of the iteration, in order.\<close>

definition parse :: "string \<Rightarrow> config \<Rightarrow> string list option" where
  "parse template cfg =
     map_option (\<lambda>(stringParts, combinations). map (assemble stringParts) combinations)
       (parse_combinations template cfg)"


section \<open>\<^verbatim>\<open>count\<close>\<close>




section \<open>\<^verbatim>\<open>choose\<close>\<close>

text \<open>The array of values of one entry of \<^verbatim>\<open>generatorPatterns\<close>, as \<^verbatim>\<open>choose\<close> builds it.\<close>

definition pattern_values :: "config \<Rightarrow> string option \<Rightarrow> jsval list option" where
  "pattern_values cfg pattern =
     (case pattern of
        None \<Rightarrow> Some [Str []]
      | Some p \<Rightarrow>
          if p = [] then Some [Str []]
          else if isRangePattern p (separatorRange cfg)
            then (case parseRangePattern p (separatorRange cfg) of
                    None \<Rightarrow> None
                  | Some (start, end', step) \<Rightarrow> values_of (range_gen start end' step True))
          else Some (parseChoicesPattern p (separatorChoices cfg)))"

text \<open>
  The first loop of the picker.  The state is \<^verbatim>\<open>resolvedValues\<close>,
  \<^verbatim>\<open>inputChoiceIndex\<close> and the number of calls of \<^verbatim>\<open>Math.random\<close> made so far;
  \<open>random k\<close> is the result of call number \<open>k\<close>, a number from 0 up to but not
  including 1.  An entry \<open>None\<close> of \<open>inputChoices\<close> is an argument that is
  \<^verbatim>\<open>undefined\<close>, as is every argument beyond the last.
\<close>

definition pick_step ::
  "nat option list \<Rightarrow> jsval list list \<Rightarrow> (nat \<Rightarrow> rat) \<Rightarrow> int option list \<Rightarrow> nat \<Rightarrow>
   jsval list \<times> nat \<times> nat \<Rightarrow> jsval list \<times> nat \<times> nat" where
  "pick_step backRefs gens random inputChoices i state =
     (let (resolvedValues, inputChoiceIndex, calls) = state
      in if backRefs ! i = None then
           (let vals = gens ! i;
                given = (if inputChoiceIndex < length inputChoices
                         then inputChoices ! inputChoiceIndex else None)
            in (case given of
                  Some choiceIndex \<Rightarrow>
                    (resolvedValues[i := js_nth vals choiceIndex], inputChoiceIndex + 1, calls)
                | None \<Rightarrow>
                    (resolvedValues[i := js_nth vals \<lfloor>random calls * of_nat (length vals)\<rfloor>],
                     inputChoiceIndex + 1, calls + 1)))
         else state)"

text \<open>
  One step of the second loop of the picker: position \<open>i\<close> looks among all the
  positions of the template.
\<close>

definition choose_resolve_step ::
  "config \<Rightarrow> nat option list \<Rightarrow> nat \<Rightarrow> jsval list \<Rightarrow> jsval list" where
  "choose_resolve_step cfg backRefs i resolvedValues =
     (case backRefs ! i of
        None \<Rightarrow> resolvedValues
      | Some refIndex \<Rightarrow>
          (let refValue = find_reference backRefs resolvedValues refIndex
                            [0 ..< length backRefs] 0
           in resolvedValues[i := (if refValue \<noteq> Null then refValue
                                   else invalid_reference cfg refIndex)]))"

text \<open>What \<^verbatim>\<open>choose\<close> computes before it returns the picker.\<close>

record picker_closure =
  closure_stringParts :: "string list"
  closure_backReferences :: "nat option list"
  closure_generators :: "jsval list list"

definition picker :: "config \<Rightarrow> picker_closure \<Rightarrow> (nat \<Rightarrow> rat) \<Rightarrow> int option list \<Rightarrow> string" where
  "picker cfg closure random inputChoices =
     (let backReferences = closure_backReferences closure;
          n = length backReferences;
          (picked, inputChoiceIndex, calls) =
             fold (pick_step backReferences (closure_generators closure) random inputChoices)
               [0 ..< n] (replicate n Undefined, 0, 0);
          resolvedValues = fold (choose_resolve_step cfg backReferences) [0 ..< n] picked
      in assemble (closure_stringParts closure) resolvedValues)"

text \<open>
  \<^verbatim>\<open>choose(template, config)\<close>: \<open>None\<close> when spreading a range into an array never
  ends.
\<close>

definition choose_closure :: "string \<Rightarrow> config \<Rightarrow> picker_closure option" where
  "choose_closure template cfg =
     (let (patterns, parts) = subHelper template cfg;
          refs = map (back_reference (backReferenceMarker cfg)) patterns;
          generatorPatterns = map (generator_pattern (backReferenceMarker cfg)) patterns
      in map_option
           (\<lambda>gens. \<lparr>closure_stringParts = parts, closure_backReferences = refs,
                    closure_generators = gens\<rparr>)
           (those (map (pattern_values cfg) generatorPatterns)))"

text \<open>
  \<^verbatim>\<open>choose(template, config)(...inputChoices)\<close>.  (The name \<open>choose\<close> is taken by the
  binomial coefficient.)
\<close>

definition choose_template ::
  "string \<Rightarrow> config \<Rightarrow> (nat \<Rightarrow> rat) \<Rightarrow> int option list \<Rightarrow> string option" where
  "choose_template template cfg random inputChoices =
     map_option (\<lambda>closure. picker cfg closure random inputChoices) (choose_closure template cfg)"


section \<open>Reference definitions\<close>










section \<open>Properties of the range sequence\<close>












section \<open>The order of the cartesian product\<close>

lemma generateCombinations_product:
  "index \<le> length allValues \<Longrightarrow> length current = length allValues \<Longrightarrow>
   generateCombinations allValues index current =
     map (\<lambda>tail. take index current @ tail) (product_lists (drop index allValues))"
proof (induction allValues index current rule: generateCombinations.induct)
  case (1 allValues index current)
  show ?case
  proof (cases "index = length allValues")
    case True
    then show ?thesis using "1.prems" by (subst generateCombinations.simps) simp
  next
    case False
    then have lt: "index < length allValues" using "1.prems" by simp
    have drop: "drop index allValues = allValues ! index # drop (Suc index) allValues"
      using lt by (simp add: Cons_nth_drop_Suc)
    have step: "generateCombinations allValues (index + 1) (current[index := v]) =
        map (\<lambda>tail. take index current @ v # tail) (product_lists (drop (Suc index) allValues))"
      if "v \<in> set (allValues ! index)" for v
    proof -
      have "take (Suc index) (current[index := v]) = take index current @ [v]"
        using lt "1.prems" by (simp add: take_Suc_conv_app_nth)
      then show ?thesis
        using "1.IH" [OF False _ that] lt "1.prems" by simp
    qed
    have "generateCombinations allValues index current =
        concat (map (\<lambda>v. generateCombinations allValues (index + 1) (current[index := v]))
                  (allValues ! index))"
      using False lt by (subst generateCombinations.simps) simp
    also have "\<dots> = concat (map (\<lambda>v. map (\<lambda>tail. take index current @ v # tail)
                                    (product_lists (drop (Suc index) allValues)))
                          (allValues ! index))"
      using step by (simp cong: map_cong)
    also have "\<dots> = map (\<lambda>tail. take index current @ tail) (product_lists (drop index allValues))"
      by (simp add: drop map_concat comp_def)
    finally show ?thesis .
  qed
qed

lemma cartesianProduct_product_lists:
  "cartesianProduct generators = map_option product_lists (those (map values_of generators))"
proof (cases generators)
  case Nil
  then show ?thesis by (simp add: cartesianProduct_def)
next
  case (Cons g rest)
  show ?thesis
  proof (cases rest)
    case Nil
    then show ?thesis using Cons
      by (cases "values_of g") (simp_all add: cartesianProduct_def comp_def)
  next
    case (Cons g' rest')
    then have len: "length generators \<noteq> 0" "length generators \<noteq> 1"
      using \<open>generators = g # rest\<close> by simp_all
    show ?thesis
    proof (cases "those (map values_of generators)")
      case None
      then show ?thesis using len by (simp add: cartesianProduct_def)
    next
      case (Some allValues)
      have "generateCombinations allValues 0 (replicate (length allValues) Undefined) =
              product_lists allValues"
        by (subst generateCombinations_product) (simp_all add: map_idI)
      then show ?thesis using Some len by (simp add: cartesianProduct_def)
    qed
  qed
qed








lemma compile_product_lists:
  "compile strings expressions =
     map_option (\<lambda>allValues. map (assemble strings) (product_lists allValues))
       (those (map values_of (map to_generator expressions)))"
  by (simp add: compile_def cartesianProduct_product_lists option.map_comp comp_def)




section \<open>Static values in \<^verbatim>\<open>compile\<close>\<close>

lemma those_append:
  "those (xs @ ys) = (case those xs of None \<Rightarrow> None | Some a \<Rightarrow> map_option ((@) a) (those ys))"
proof (induction xs)
  case Nil
  show ?case by (cases "those ys") simp_all
next
  case (Cons x xs)
  then show ?case by (cases "those ys") (auto split: option.splits)
qed

lemma those_length: "those xs = Some ys \<Longrightarrow> length ys = length xs"
  by (induction xs arbitrary: ys) (auto split: option.splits)

lemma product_lists_insert_singleton:
  "product_lists (vss1 @ [v] # vss2) =
     map (\<lambda>c. take (length vss1) c @ v # drop (length vss1) c) (product_lists (vss1 @ vss2))"
  by (induction vss1) (simp_all add: map_concat comp_def)

lemma build_result_append:
  "length c1 = length t1 \<Longrightarrow>
   build_result r (c1 @ c2) (t1 @ t2) = build_result (build_result r c1 t1) c2 t2"
  by (induction c1 t1 arbitrary: r rule: list_induct2) simp_all

lemma assemble_static:
  assumes "length strings1 = n" "n \<le> length c"
  shows "assemble (strings1 @ [a, b] @ strings2) (take n c @ v # drop n c) =
         assemble (strings1 @ [a @ to_string v @ b] @ strings2) c"
proof (cases strings1)
  case Nil
  then show ?thesis using assms by (simp add: assemble_def)
next
  case (Cons s rest)
  then obtain m where n: "n = Suc m" and m: "length rest = m" "m < length c"
    using assms by auto
  have split: "c = take m c @ c ! m # drop (Suc m) c"
    using m(2) by (simp add: id_take_nth_drop)
  have "build_result s (take n c @ v # drop n c) (rest @ [a, b] @ strings2)
        = build_result s (take m c @ (c ! m # v # drop (Suc m) c)) (rest @ (a # b # strings2))"
    using m(2) by (simp add: n take_Suc_conv_app_nth)
  also have "\<dots> = build_result (build_result s (take m c) rest)
                      (c ! m # v # drop (Suc m) c) (a # b # strings2)"
    using m by (intro build_result_append) simp
  also have "\<dots> = build_result (build_result s (take m c) rest)
                      (c ! m # drop (Suc m) c) ((a @ to_string v @ b) # strings2)"
    by simp
  also have "\<dots> = build_result s (take m c @ (c ! m # drop (Suc m) c))
                      (rest @ ((a @ to_string v @ b) # strings2))"
    using m by (intro build_result_append [symmetric]) simp
  also have "\<dots> = build_result s c (rest @ [a @ to_string v @ b] @ strings2)"
    using split by simp
  finally show ?thesis using Cons by (simp add: assemble_def)
qed

text \<open>
  Claim C10.  In \<^verbatim>\<open>compile\<close> an interpolated expression that is neither an array nor a
  generator becomes a \<^verbatim>\<open>StaticGenerator\<close>, which yields the value once.  The strings
  \<^verbatim>\<open>compile\<close> emits are then the strings it emits for the template without this
  expression in which the two neighbouring literal strings are joined around the text
  of the value: as many strings, in the same order, each with the value's text at its
  position.  (Both calls return, or neither does.)
\<close>

theorem compile_static_value:
  assumes "length strings1 = length expressions1"
  shows "values_of (to_generator (ValueExpr v)) = Some [v]
       \<and> compile (strings1 @ [a, b] @ strings2) (expressions1 @ [ValueExpr v] @ expressions2)
         = compile (strings1 @ [a @ to_string v @ b] @ strings2) (expressions1 @ expressions2)"
proof
  show "values_of (to_generator (ValueExpr v)) = Some [v]" by simp
next
  let ?A = "those (map values_of (map to_generator expressions1))"
  let ?B = "those (map values_of (map to_generator expressions2))"
  show "compile (strings1 @ [a, b] @ strings2) (expressions1 @ [ValueExpr v] @ expressions2)
         = compile (strings1 @ [a @ to_string v @ b] @ strings2) (expressions1 @ expressions2)"
  proof (cases ?A)
    case None
    then show ?thesis by (simp add: compile_product_lists those_append)
  next
    case A: (Some vss1)
    show ?thesis
    proof (cases ?B)
      case None
      then show ?thesis using A by (simp add: compile_product_lists those_append)
    next
      case B: (Some vss2)
      have n: "length vss1 = length strings1"
        using those_length [OF A] assms by simp
      have "assemble (strings1 @ [a, b] @ strings2)
              (take (length vss1) c @ v # drop (length vss1) c)
            = assemble (strings1 @ [a @ to_string v @ b] @ strings2) c"
        if "c \<in> set (product_lists (vss1 @ vss2))" for c
      proof -
        have "length c = length (vss1 @ vss2)"
          using that by (rule in_set_product_lists_length)
        then show ?thesis using n by (intro assemble_static) simp_all
      qed
      then show ?thesis
        using A B
        by (simp add: compile_product_lists those_append product_lists_insert_singleton
              comp_def cong: map_cong)
    qed
  qed
qed

text \<open>
  The test \<^verbatim>\<open>compile`A ${value} value and a ${["dynamic", "variable"]} one`\<close> with the
  string \<^verbatim>\<open>static\<close> for the value.
\<close>

theorem compile_static_value_witness:
  "length ([] :: string list) = length ([] :: expression list)
   \<and> compile [''A '', '' value and a '', '' one'']
         [ValueExpr (Str ''static''), ArrayExpr [Str ''dynamic'', Str ''variable'']]
       = Some [''A static value and a dynamic one'', ''A static value and a variable one'']"
proof -
  have h: "length ([] :: string list) = length ([] :: expression list)" by simp
  have "compile [''A static value and a '', '' one'']
          [ArrayExpr [Str ''dynamic'', Str ''variable'']]
        = Some [''A static value and a dynamic one'', ''A static value and a variable one'']"
    by code_simp
  then show ?thesis
    using compile_static_value [OF h, of "Str ''static''" "''A ''" "'' value and a ''"
        "['' one'']" "[ArrayExpr [Str ''dynamic'', Str ''variable'']]"]
    by simp
qed

section \<open>\<^verbatim>\<open>count\<close> and the length of the enumeration\<close>









section \<open>Resolving back-references in \<^verbatim>\<open>parse\<close>\<close>














section \<open>Where the code leaves the specification\<close>

text \<open>
  Claim C2 (the code differs).  The specification has an unresolved back-reference
  replaced by the start delimiter, the marker, the index and the end delimiter, in
  \<^verbatim>\<open>parse\<close> and in \<^verbatim>\<open>choose\<close>.  The code writes the braces \<^verbatim>\<open>{\<close> and \<^verbatim>\<open>}\<close>
  whatever the configured delimiters are: with the delimiters \<^verbatim>\<open><\<close> and \<^verbatim>\<open>>\<close> the
  placeholder \<^verbatim>\<open><$2>\<close> comes out as \<^verbatim>\<open>{$2}\<close>, from both entry points.  And the
  picker of \<^verbatim>\<open>choose\<close> looks for the referent among all the placeholders, not only
  among those before the back-reference, so a reference to a later placeholder is
  resolved there and not replaced by the literal text.
\<close>

theorem unresolved_reference_text_differs:
  "parse ''<a|b> <$2>'' (default_config\<lparr>patternStart := ''<'', patternEnd := ''>''\<rparr>)
     = Some [''a {$2}'', ''b {$2}'']
   \<and> choose_template ''<a|b> <$2>'' (default_config\<lparr>patternStart := ''<'', patternEnd := ''>''\<rparr>)
       random [Some 1]
     = Some ''b {$2}''
   \<and> choose_template ''{$1} {a|b} {c|d}'' default_config random [Some 0, Some 1] = Some ''d a d''"
  by code_simp

text \<open>
  Claim C3 (the code differs).  The specification classifies a placeholder by its
  content with the white space around it trimmed.  The code asks in addition that the
  match be the whole untrimmed content (\<^verbatim>\<open>backRefMatch[0] === pattern\<close>), which
  leaves its own comparison with \<^verbatim>\<open>pattern.trim()\<close> without effect: the content
  \<^verbatim>\<open> $0 \<close> is not a back-reference but a choice list with the one option \<^verbatim>\<open> $0 \<close>.
  The contents \<^verbatim>\<open>10|20\<close> and literal \<^verbatim>\<open>$$$\<close> text are not back-references, as the claim
  says.
\<close>

theorem padded_back_reference_not_recognised:
  "back_reference (CHR ''$'') ''$0'' = Some 0
   \<and> back_reference (CHR ''$'') '' $0 '' = None
   \<and> parse ''{a|b}{ $0 }'' default_config = Some [''a $0 '', ''b $0 '']
   \<and> parse ''{a|b}{$0}'' default_config = Some [''aa'', ''bb'']
   \<and> back_reference (CHR ''$'') ''10|20'' = None
   \<and> parse ''The cost is ${10|20}. Yes, $$$ dollars.'' default_config
     = Some [''The cost is $10. Yes, $$$ dollars.'', ''The cost is $20. Yes, $$$ dollars.'']"
  by code_simp

text \<open>
  Claim C7 (the code differs).  With explicit indices the picker of \<^verbatim>\<open>choose\<close> consults
  no random number, but its string need not be one of the strings of \<^verbatim>\<open>parse\<close>: for a
  back-reference to a placeholder that comes after it, \<^verbatim>\<open>parse\<close> looks only among
  the placeholders before the back-reference and leaves the literal text, while the
  picker looks among all of them and copies the later value.
\<close>

theorem choose_outside_enumeration:
  "choose_template ''{$0} {a|b}'' default_config random [Some 0] = Some ''a a''
   \<and> parse ''{$0} {a|b}'' default_config = Some [''{$0} a'', ''{$0} b'']
   \<and> ''a a'' \<notin> set [''{$0} a'', ''{$0} b'']"
  by code_simp

section \<open>Range patterns and choice lists\<close>



















section \<open>The empty pair of delimiters\<close>

























end
